theory Spec2Isabelle
  imports Complex_Main "HOL-Library.Multiset" "HOL-Library.Product_Lexorder"
    "HOL-Library.Log_Nat" "HOL-Library.Word"
begin

section \<open>EPL dashboard (app.py): data model\<close>

text \<open>
  One row of the loaded CSV. \<open>MatchDate\<close> is a pandas timestamp, kept as the pair
  (day ordinal, seconds into the day); \<open>.dt.date\<close> keeps the day. pandas reads the goal
  columns as 64-bit integers, so a goal count is an \<open>int64\<close> and arithmetic on the
  columns wraps around. \<open>FullTimeResult\<close> is the raw string of the column (\<open>H\<close>,
  \<open>A\<close>, \<open>D\<close> or anything else the file holds). The optional half-time columns are
  read by the correlation chart only and are left out.
\<close>

type_synonym timestamp = "int \<times> nat"

type_synonym int64 = "64 word"

definition dt_date :: "timestamp \<Rightarrow> int" where
  "dt_date ts = fst ts"

record match_row =
  MatchDate :: timestamp
  Season :: string
  HomeTeam :: string
  AwayTeam :: string
  FullTimeHomeGoals :: int64
  FullTimeAwayGoals :: int64
  FullTimeResult :: string

text \<open>
  The data frame \<open>df\<close>: its rows, and whether the optional columns \<open>Season\<close> and
  \<open>MatchDate\<close> are among \<open>df.columns\<close> (lines 81, 86, 108, 111 test for them).
\<close>

record dataframe =
  Season_col :: bool
  MatchDate_col :: bool
  records :: "match_row list"

text \<open>
  The sidebar widgets (lines 78-98): the two multiselects return lists, the date input
  returns a tuple of zero, one or two dates, the slider a pair of Python integers between
  0 and the slider's maximum.
\<close>

record filter_spec =
  selected_teams :: "string list"
  selected_seasons :: "string list"
  date_range :: "int list"
  min_goals :: int
  max_goals :: int

text \<open>Exceptions that end the script run.\<close>

datatype py_error = ZeroDivisionError | KeyError string | ValueError

section \<open>float64 arithmetic\<close>

text \<open>
  A finite float64 is modelled as the rational number it denotes. Every float64 operation
  of the script is the exact operation followed by one rounding to the nearest number with
  a 53-bit significand, ties going to the even significand. The exponent range is not
  limited: infinities, NaN and subnormal numbers are not modelled, and the means of int64
  columns and what the script computes from them stay inside the normal range.

  \<open>round_half_even\<close> rounds to the nearest integer, ties to even; \<open>floor_log2 x\<close> is the
  exponent \<open>e\<close> with \<open>2^e \<le> x < 2^(e+1)\<close> of a positive \<open>x\<close>; \<open>round_mag\<close> rounds a
  positive number to 53 significant bits.
\<close>

type_synonym float64 = rat

definition round_half_even :: "rat \<Rightarrow> int" where
  "round_half_even q =
    (let f = \<lfloor>q\<rfloor>; d = q - of_int f
     in if d < 1/2 then f else if d > 1/2 then f + 1 else if even f then f else f + 1)"

definition floor_log2 :: "rat \<Rightarrow> int" where
  "floor_log2 x = (if x \<ge> 1 then bitlen \<lfloor>x\<rfloor> - 1 else - bitlen (\<lceil>1 / x\<rceil> - 1))"

definition round_mag :: "rat \<Rightarrow> rat" where
  "round_mag x =
     of_int (round_half_even (x / 2 powi (floor_log2 x - 52))) * 2 powi (floor_log2 x - 52)"

definition round64 :: "rat \<Rightarrow> float64" where
  "round64 x = (if x = 0 then 0 else sgn x * round_mag \<bar>x\<bar>)"


definition fadd :: "float64 \<Rightarrow> float64 \<Rightarrow> float64" where
  "fadd a b = round64 (a + b)"

definition fsub :: "float64 \<Rightarrow> float64 \<Rightarrow> float64" where
  "fsub a b = round64 (a - b)"

definition fmul :: "float64 \<Rightarrow> float64 \<Rightarrow> float64" where
  "fmul a b = round64 (a * b)"

definition fdiv :: "float64 \<Rightarrow> float64 \<Rightarrow> float64" where
  "fdiv a b = round64 (a / b)"

text \<open>The conversion of an int64 to float64.\<close>

definition to_float64 :: "int64 \<Rightarrow> float64" where
  "to_float64 v = round64 (of_int (sint v))"

text \<open>
  \<open>Series.mean()\<close> of an int64 column converts the values to float64, adds them up and
  divides by the count, in float64. The order in which the library adds the values up is
  its own (numpy adds blockwise and pairwise, bottleneck from left to right), and the
  result depends on it only when a partial sum is not exact. The summation is therefore a
  parameter of the model, \<open>fsum\<close>; \<open>seq_sum\<close> is the one that adds from left to right.
\<close>

type_synonym summation = "float64 list \<Rightarrow> float64"

definition seq_sum :: summation where
  "seq_sum xs = foldl fadd 0 xs"

definition mean :: "summation \<Rightarrow> int64 list \<Rightarrow> float64" where
  "mean fsum xs = fdiv (fsum (map to_float64 xs)) (round64 (of_nat (length xs)))"

text \<open>The mean of an empty column is NaN, written \<open>None\<close>.\<close>

definition series_mean :: "summation \<Rightarrow> int64 list \<Rightarrow> float64 option" where
  "series_mean fsum xs = (if xs = [] then None else Some (mean fsum xs))"

section \<open>Filter application (lines 100-121)\<close>

text \<open>
  Line 117 adds the column \<open>TotalGoals\<close> to every row that is still in the frame: the sum
  of two int64 columns, which wraps around. It is a function of the row, and is written as
  one here. The comparisons of lines 119-120 are between the signed value of the total and
  the two Python integers of the slider.
\<close>

definition TotalGoals :: "match_row \<Rightarrow> int64" where
  "TotalGoals m = FullTimeHomeGoals m + FullTimeAwayGoals m"

definition apply_filters :: "dataframe \<Rightarrow> filter_spec \<Rightarrow> match_row list" where
  "apply_filters df fs =
    (let f0 = records df;
         f1 = (if selected_teams fs \<noteq> []
               then filter (\<lambda>m. HomeTeam m \<in> set (selected_teams fs)
                                \<or> AwayTeam m \<in> set (selected_teams fs)) f0
               else f0);
         f2 = (if Season_col df \<and> selected_seasons fs \<noteq> []
               then filter (\<lambda>m. Season m \<in> set (selected_seasons fs)) f1
               else f1);
         f3 = (if MatchDate_col df \<and> length (date_range fs) = 2
               then filter (\<lambda>m. dt_date (MatchDate m) \<ge> date_range fs ! 0
                                \<and> dt_date (MatchDate m) \<le> date_range fs ! 1) f2
               else f2)
     in filter (\<lambda>m. sint (TotalGoals m) \<ge> min_goals fs \<and> sint (TotalGoals m) \<le> max_goals fs) f3)"

text \<open>
  The predicate of the specification, in its words: each dimension constrains a record
  only when it is active. The team set is active when it is not empty, the season set when
  the column exists and the set is not empty, the date range when the column exists and
  both ends are given; the goals range comes from a slider and is always there.
  \<open>passes\<close> takes the total of the record as an argument; \<open>satisfies_spec\<close> passes the
  sum homeGoals + awayGoals of the two goal counts, as integers.
\<close>

definition teams_active :: "filter_spec \<Rightarrow> bool" where
  "teams_active fs = (selected_teams fs \<noteq> [])"

definition seasons_active :: "dataframe \<Rightarrow> filter_spec \<Rightarrow> bool" where
  "seasons_active df fs = (Season_col df \<and> selected_seasons fs \<noteq> [])"

definition dates_active :: "dataframe \<Rightarrow> filter_spec \<Rightarrow> bool" where
  "dates_active df fs = (MatchDate_col df \<and> length (date_range fs) = 2)"

definition passes :: "dataframe \<Rightarrow> filter_spec \<Rightarrow> match_row \<Rightarrow> int \<Rightarrow> bool" where
  "passes df fs m goals =
    ((teams_active fs \<longrightarrow>
        HomeTeam m \<in> set (selected_teams fs) \<or> AwayTeam m \<in> set (selected_teams fs))
     \<and> (seasons_active df fs \<longrightarrow> Season m \<in> set (selected_seasons fs))
     \<and> (dates_active df fs \<longrightarrow>
          date_range fs ! 0 \<le> dt_date (MatchDate m) \<and> dt_date (MatchDate m) \<le> date_range fs ! 1)
     \<and> min_goals fs \<le> goals \<and> goals \<le> max_goals fs)"

definition satisfies_spec :: "dataframe \<Rightarrow> filter_spec \<Rightarrow> match_row \<Rightarrow> bool" where
  "satisfies_spec df fs m =
     passes df fs m (sint (FullTimeHomeGoals m) + sint (FullTimeAwayGoals m))"

text \<open>
  A record whose sum of goals lies in the int64 range; a record whose goal counts are not
  negative; a range the slider can return.
\<close>

definition goals_sum_fits :: "match_row \<Rightarrow> bool" where
  "goals_sum_fits m =
    (- (2 ^ 63) \<le> sint (FullTimeHomeGoals m) + sint (FullTimeAwayGoals m)
     \<and> sint (FullTimeHomeGoals m) + sint (FullTimeAwayGoals m) < 2 ^ 63)"

definition goals_nonneg :: "match_row \<Rightarrow> bool" where
  "goals_nonneg m = (0 \<le> sint (FullTimeHomeGoals m) \<and> 0 \<le> sint (FullTimeAwayGoals m))"

definition slider_range :: "filter_spec \<Rightarrow> bool" where
  "slider_range fs = (0 \<le> min_goals fs \<and> max_goals fs < 2 ^ 63)"

section \<open>Overview metrics (lines 133-148)\<close>

text \<open>
  \<open>a / b\<close> on two Python integers raises on a zero divisor and is the correctly rounded
  quotient otherwise.
\<close>

definition py_truediv :: "int \<Rightarrow> int \<Rightarrow> py_error + float64" where
  "py_truediv a b = (if b = 0 then Inl ZeroDivisionError else Inr (round64 (of_int a / of_int b)))"

record overview_metrics =
  total_matches :: int
  total_goals :: int
  avg_goals :: "float64 option"
  home_win_pct :: float64
  away_win_pct :: float64

definition overview :: "summation \<Rightarrow> match_row list \<Rightarrow> py_error + overview_metrics" where
  "overview fsum filtered_df =
    (let total_matches = int (length filtered_df);
         total_goals = sint (sum_list (map TotalGoals filtered_df));
         avg_goals = series_mean fsum (map TotalGoals filtered_df);
         home_wins = int (length (filter (\<lambda>m. FullTimeResult m = ''H'') filtered_df));
         away_wins = int (length (filter (\<lambda>m. FullTimeResult m = ''A'') filtered_df))
     in case py_truediv home_wins total_matches of
          Inl e \<Rightarrow> Inl e
        | Inr h \<Rightarrow>
            (case py_truediv away_wins total_matches of
               Inl e \<Rightarrow> Inl e
             | Inr a \<Rightarrow>
                 Inr \<lparr>total_matches = total_matches, total_goals = total_goals,
                      avg_goals = avg_goals, home_win_pct = fmul h 100,
                      away_win_pct = fmul a 100\<rparr>))"

section \<open>League table (lines 175-209)\<close>

text \<open>
  One dictionary appended per team. The counts are Python integers; the goal sums are int64
  sums (they wrap around) and enter the row by their signed value. The column
  \<open>Points per Game\<close>, a float rounded to two places (guarded by \<open>if played > 0\<close>), is
  not read by any property below and is left out.
\<close>

record standing =
  Position :: int
  Team :: string
  Played :: int
  Wins :: int
  Draws :: int
  Losses :: int
  GF :: int
  GA :: int
  GD :: int
  Points :: int

definition team_row :: "match_row list \<Rightarrow> string \<Rightarrow> standing option" where
  "team_row filtered_df team =
    (let home = filter (\<lambda>m. HomeTeam m = team) filtered_df;
         away = filter (\<lambda>m. AwayTeam m = team) filtered_df;
         played = int (length home) + int (length away)
     in if played = 0 then None
        else
          let wins = int (length (filter (\<lambda>m. FullTimeResult m = ''H'') home))
                     + int (length (filter (\<lambda>m. FullTimeResult m = ''A'') away));
              draws = int (length (filter (\<lambda>m. FullTimeResult m = ''D'') home))
                      + int (length (filter (\<lambda>m. FullTimeResult m = ''D'') away));
              losses = played - wins - draws;
              gf = sum_list (map FullTimeHomeGoals home) + sum_list (map FullTimeAwayGoals away);
              ga = sum_list (map FullTimeAwayGoals home) + sum_list (map FullTimeHomeGoals away);
              gd = gf - ga;
              points = wins * 3 + draws
          in Some \<lparr>Position = 0, Team = team, Played = played, Wins = wins, Draws = draws,
                   Losses = losses, GF = sint gf, GA = sint ga, GD = sint gd, Points = points\<rparr>)"

text \<open>The loop over \<open>teams_to_show\<close>: a team without matches is skipped (\<open>continue\<close>).\<close>

fun league_table :: "match_row list \<Rightarrow> string list \<Rightarrow> standing list" where
  "league_table filtered_df [] = []"
| "league_table filtered_df (team # teams) =
    (case team_row filtered_df team of
       None \<Rightarrow> league_table filtered_df teams
     | Some row \<Rightarrow> row # league_table filtered_df teams)"

text \<open>
  Line 176: the selected teams, or every team of the file when none is selected
  (\<open>all_teams\<close> is computed from the unfiltered frame on line 77 and is a parameter here).
\<close>

definition teams_to_show :: "filter_spec \<Rightarrow> string list \<Rightarrow> string list" where
  "teams_to_show fs all_teams = (if selected_teams fs \<noteq> [] then selected_teams fs else all_teams)"

text \<open>
  \<open>sort_values(by=['Points', 'GD'], ascending=False)\<close> is a call into pandas: with more
  than one key it sorts through a lexicographic, stable index sort, descending keys being
  negated first. That is an insertion sort on the key \<open>(- Points, - GD)\<close> under the
  lexicographic order.
\<close>

definition sort_values :: "standing list \<Rightarrow> standing list" where
  "sort_values tbl = sort_key (\<lambda>r. (- Points r, - GD r)) tbl"

text \<open>Line 209: \<open>league_df['Position'] = range(1, len(league_df) + 1)\<close>.\<close>

definition assign_positions :: "standing list \<Rightarrow> standing list" where
  "assign_positions tbl =
     map (\<lambda>(p, r). r\<lparr>Position := p\<rparr>) (zip [1..int (length tbl)] tbl)"

text \<open>
  Lines 208-209. \<open>pd.DataFrame([])\<close> has no columns, so sorting it by \<open>Points\<close> raises
  \<open>KeyError\<close>.
\<close>

definition league_df :: "standing list \<Rightarrow> py_error + standing list" where
  "league_df tbl =
     (if tbl = [] then Inl (KeyError ''Points'')
      else Inr (assign_positions (sort_values tbl)))"

text \<open>The order the rows are ranked in: more points first, then the larger goal difference.\<close>

definition ranked_before :: "standing \<Rightarrow> standing \<Rightarrow> bool" where
  "ranked_before a b = (Points a > Points b \<or> (Points a = Points b \<and> GD a \<ge> GD b))"

section \<open>Outcome predictor (lines 295-329)\<close>

record prediction_result =
  prediction :: string
  confidence :: float64
  predicted_goals :: float64

datatype predictor_output = Warning string | Metrics prediction_result

text \<open>
  Lines 310-318: the label and the confidence, from the two strengths. The literals
  \<open>0.5\<close>, \<open>60\<close> and \<open>10\<close> are exact in float64; \<open>abs\<close>, \<open>min\<close> and the comparisons are
  exact.
\<close>

definition decide :: "float64 \<Rightarrow> float64 \<Rightarrow> string \<times> float64" where
  "decide home_strength away_strength =
    (if home_strength > fadd away_strength (1/2)
       then (''Home Win'', min 95 (fadd 60 (fmul (abs (fsub home_strength away_strength)) 10)))
     else if away_strength > fadd home_strength (1/2)
       then (''Away Win'', min 95 (fadd 60 (fmul (abs (fsub away_strength home_strength)) 10)))
     else (''Draw'', 50))"

definition predict_match ::
  "summation \<Rightarrow> match_row list \<Rightarrow> string \<Rightarrow> string \<Rightarrow> predictor_output" where
  "predict_match fsum filtered_df home_team away_team =
    (let home_data = filter (\<lambda>m. HomeTeam m = home_team) filtered_df;
         away_data = filter (\<lambda>m. AwayTeam m = away_team) filtered_df
     in if length home_data > 0 \<and> length away_data > 0 then
          let home_avg_scored = mean fsum (map FullTimeHomeGoals home_data);
              home_avg_conceded = mean fsum (map FullTimeAwayGoals home_data);
              away_avg_scored = mean fsum (map FullTimeAwayGoals away_data);
              away_avg_conceded = mean fsum (map FullTimeHomeGoals away_data);
              home_strength = fsub home_avg_scored home_avg_conceded;
              away_strength = fsub away_avg_scored away_avg_conceded;
              (label, conf) = decide home_strength away_strength
          in Metrics \<lparr>prediction = label, confidence = conf,
                      predicted_goals = max 0 (fdiv (fadd home_avg_scored away_avg_scored) 2)\<rparr>
        else Warning ''Not enough data for these teams in the selected filters.'')"

text \<open>
  The two strengths the predictor computes (lines 301-308), named for the statements
  below.
\<close>

definition home_strength_of :: "summation \<Rightarrow> match_row list \<Rightarrow> string \<Rightarrow> float64" where
  "home_strength_of fsum filtered_df home_team =
    (let home_data = filter (\<lambda>m. HomeTeam m = home_team) filtered_df
     in fsub (mean fsum (map FullTimeHomeGoals home_data))
             (mean fsum (map FullTimeAwayGoals home_data)))"

definition away_strength_of :: "summation \<Rightarrow> match_row list \<Rightarrow> string \<Rightarrow> float64" where
  "away_strength_of fsum filtered_df away_team =
    (let away_data = filter (\<lambda>m. AwayTeam m = away_team) filtered_df
     in fsub (mean fsum (map FullTimeAwayGoals away_data))
             (mean fsum (map FullTimeHomeGoals away_data)))"

section \<open>Per-row points of a team (lines 338-340, 366-376)\<close>

text \<open>
  \<open>team_all\<close> holds the rows the function is applied to: the home rows of the selected
  team, then its away rows (line 340; the sort by date of line 363 reorders them).
\<close>

definition team_all :: "match_row list \<Rightarrow> string \<Rightarrow> match_row list" where
  "team_all filtered_df team =
     filter (\<lambda>m. HomeTeam m = team) filtered_df @ filter (\<lambda>m. AwayTeam m = team) filtered_df"

definition get_team_result :: "match_row \<Rightarrow> string \<Rightarrow> int" where
  "get_team_result row team =
    (if HomeTeam row = team then
       (if FullTimeResult row = ''H'' then 3
        else if FullTimeResult row = ''D'' then 1
        else 0)
     else
       (if FullTimeResult row = ''A'' then 3
        else if FullTimeResult row = ''D'' then 1
        else 0))"

text \<open>
  The scoring of the specification, in its words: 3 when the named team won (as the home
  team with result \<open>H\<close>, or as the away team with result \<open>A\<close>), 1 on a draw, 0 otherwise.
\<close>

definition team_won :: "match_row \<Rightarrow> string \<Rightarrow> bool" where
  "team_won row team =
    ((HomeTeam row = team \<and> FullTimeResult row = ''H'')
     \<or> (AwayTeam row = team \<and> FullTimeResult row = ''A''))"

definition spec_team_result :: "match_row \<Rightarrow> string \<Rightarrow> int" where
  "spec_team_result row team =
    (if team_won row team then 3 else if FullTimeResult row = ''D'' then 1 else 0)"

section \<open>Example data\<close>

text \<open>The two-match data set of the specification's examples: A 2-1 B, then B 0-0 A.\<close>

definition match1 :: match_row where
  "match1 = \<lparr>MatchDate = (19000, 0), Season = ''2021/22'', HomeTeam = ''A'', AwayTeam = ''B'',
             FullTimeHomeGoals = 2, FullTimeAwayGoals = 1, FullTimeResult = ''H''\<rparr>"

definition match2 :: match_row where
  "match2 = \<lparr>MatchDate = (19100, 0), Season = ''2021/22'', HomeTeam = ''B'', AwayTeam = ''A'',
             FullTimeHomeGoals = 0, FullTimeAwayGoals = 0, FullTimeResult = ''D''\<rparr>"

definition match3 :: match_row where
  "match3 = \<lparr>MatchDate = (19200, 0), Season = ''2021/22'', HomeTeam = ''A'', AwayTeam = ''B'',
             FullTimeHomeGoals = 0, FullTimeAwayGoals = 1, FullTimeResult = ''A''\<rparr>"

definition example_df :: dataframe where
  "example_df = \<lparr>Season_col = True, MatchDate_col = True, records = [match1, match2]\<rparr>"

text \<open>A filter with every dimension active, and one with the goals range only.\<close>

definition fs_all_active :: filter_spec where
  "fs_all_active = \<lparr>selected_teams = [''A''], selected_seasons = [''2021/22''],
                    date_range = [19000, 19050], min_goals = 3, max_goals = 10\<rparr>"

definition fs_goals_only :: filter_spec where
  "fs_goals_only = \<lparr>selected_teams = [], selected_seasons = [], date_range = [],
                    min_goals = 3, max_goals = 10\<rparr>"

text \<open>The standing of team A on the two-match data set.\<close>

definition standing_A :: standing where
  "standing_A = \<lparr>Position = 0, Team = ''A'', Played = 2, Wins = 1, Draws = 1, Losses = 0,
                 GF = 2, GA = 1, GD = 1, Points = 4\<rparr>"

text \<open>
  Three rows in loop order X, Y, Z: X and Z are level on points and goal difference, and Z
  has scored more.
\<close>

definition standing_X :: standing where
  "standing_X = \<lparr>Position = 0, Team = ''X'', Played = 2, Wins = 1, Draws = 0, Losses = 1,
                 GF = 1, GA = 1, GD = 0, Points = 3\<rparr>"

definition standing_Y :: standing where
  "standing_Y = \<lparr>Position = 0, Team = ''Y'', Played = 2, Wins = 2, Draws = 0, Losses = 0,
                 GF = 4, GA = 1, GD = 3, Points = 6\<rparr>"

definition standing_Z :: standing where
  "standing_Z = \<lparr>Position = 0, Team = ''Z'', Played = 2, Wins = 1, Draws = 0, Losses = 1,
                 GF = 5, GA = 5, GD = 0, Points = 3\<rparr>"

definition tie_table :: "standing list" where
  "tie_table = [standing_X, standing_Y, standing_Z]"

text \<open>
  The predictor example: Arsenal average 2.0 scored and 1.0 conceded at home, Wolves
  average 0.5 scored and 1.5 conceded away.
\<close>

definition pm1 :: match_row where
  "pm1 = \<lparr>MatchDate = (19000, 0), Season = ''2021/22'', HomeTeam = ''Arsenal'',
          AwayTeam = ''Everton'', FullTimeHomeGoals = 2, FullTimeAwayGoals = 1,
          FullTimeResult = ''H''\<rparr>"

definition pm2 :: match_row where
  "pm2 = \<lparr>MatchDate = (19007, 0), Season = ''2021/22'', HomeTeam = ''Everton'',
          AwayTeam = ''Wolves'', FullTimeHomeGoals = 2, FullTimeAwayGoals = 1,
          FullTimeResult = ''H''\<rparr>"

definition pm3 :: match_row where
  "pm3 = \<lparr>MatchDate = (19014, 0), Season = ''2021/22'', HomeTeam = ''Leeds'',
          AwayTeam = ''Wolves'', FullTimeHomeGoals = 1, FullTimeAwayGoals = 0,
          FullTimeResult = ''H''\<rparr>"

definition example_prediction :: prediction_result where
  "example_prediction = \<lparr>prediction = ''Home Win'', confidence = 80, predicted_goals = 5/4\<rparr>"

text \<open>
  A file of two seasons whose goals slider reaches 18, so that its default \<open>(0, 10)\<close> is
  a legal value, and a selection (Leicester, season 2020/21, the full date range) that no
  match of the file satisfies.
\<close>

definition match4 :: match_row where
  "match4 = \<lparr>MatchDate = (18200, 0), Season = ''2019/20'', HomeTeam = ''Southampton'',
             AwayTeam = ''Leicester'', FullTimeHomeGoals = 0, FullTimeAwayGoals = 9,
             FullTimeResult = ''A''\<rparr>"

definition match5 :: match_row where
  "match5 = \<lparr>MatchDate = (18700, 0), Season = ''2020/21'', HomeTeam = ''Man United'',
             AwayTeam = ''Southampton'', FullTimeHomeGoals = 9, FullTimeAwayGoals = 0,
             FullTimeResult = ''H''\<rparr>"

definition two_season_df :: dataframe where
  "two_season_df = \<lparr>Season_col = True, MatchDate_col = True, records = [match4, match5]\<rparr>"

definition fs_no_match :: filter_spec where
  "fs_no_match = \<lparr>selected_teams = [''Leicester''], selected_seasons = [''2020/21''],
                  date_range = [18200, 18700], min_goals = 0, max_goals = 10\<rparr>"

text \<open>
  A file with a 5-5 draw, which puts the slider's maximum at 10, and a row whose two goal
  counts are both the least int64; the default selection of the goals slider.
\<close>

definition match6 :: match_row where
  "match6 = \<lparr>MatchDate = (19000, 0), Season = ''2021/22'', HomeTeam = ''A'', AwayTeam = ''B'',
             FullTimeHomeGoals = 5, FullTimeAwayGoals = 5, FullTimeResult = ''D''\<rparr>"

definition match7 :: match_row where
  "match7 = \<lparr>MatchDate = (19100, 0), Season = ''2021/22'', HomeTeam = ''B'', AwayTeam = ''A'',
             FullTimeHomeGoals = - 9223372036854775808,
             FullTimeAwayGoals = - 9223372036854775808, FullTimeResult = ''D''\<rparr>"

definition wrap_df :: dataframe where
  "wrap_df = \<lparr>Season_col = True, MatchDate_col = True, records = [match6, match7]\<rparr>"

definition fs_default_goals :: filter_spec where
  "fs_default_goals = \<lparr>selected_teams = [''A''], selected_seasons = [''2021/22''],
                       date_range = [19000, 19100], min_goals = 0, max_goals = 10\<rparr>"

text \<open>A row that lists the same team at home and away, recorded as an away win.\<close>

definition match8 :: match_row where
  "match8 = \<lparr>MatchDate = (19300, 0), Season = ''2021/22'', HomeTeam = ''A'', AwayTeam = ''A'',
             FullTimeHomeGoals = 0, FullTimeAwayGoals = 1, FullTimeResult = ''A''\<rparr>"






section \<open>Rounding\<close>

lemma round_half_even_bounds: "\<lfloor>q\<rfloor> \<le> round_half_even q \<and> round_half_even q \<le> \<lfloor>q\<rfloor> + 1"
  by (simp add: round_half_even_def Let_def)

lemma round_half_even_of_int: "round_half_even (of_int n) = n"
  by (simp add: round_half_even_def)

lemma round_half_even_mono:
  assumes "q \<le> r"
  shows "round_half_even q \<le> round_half_even r"
proof (cases "\<lfloor>q\<rfloor> = \<lfloor>r\<rfloor>")
  case True
  with assms show ?thesis by (auto simp: round_half_even_def Let_def)
next
  case False
  with assms have "\<lfloor>q\<rfloor> < \<lfloor>r\<rfloor>" by (simp add: floor_mono le_neq_trans)
  with round_half_even_bounds [of q] round_half_even_bounds [of r] show ?thesis by linarith
qed

lemma round_half_even_ge: "of_int n \<le> q \<Longrightarrow> n \<le> round_half_even q"
  using round_half_even_mono [of "of_int n" q] by (simp add: round_half_even_of_int)

lemma round_half_even_le: "q \<le> of_int n \<Longrightarrow> round_half_even q \<le> n"
  using round_half_even_mono [of q "of_int n"] by (simp add: round_half_even_of_int)

lemma floor_log2_bounds:
  assumes "0 < x"
  shows "2 powi (floor_log2 x) \<le> x \<and> x < 2 powi (floor_log2 x + 1)"
proof (cases "1 \<le> x")
  case True
  define n where "n = \<lfloor>x\<rfloor>"
  have n: "0 < n" "of_int n \<le> x" "x < of_int n + 1"
    using True by (simp_all add: n_def) linarith
  have b: "1 \<le> bitlen n"
    using n(1) bitlen_eq_zero_iff [of n] bitlen_nonneg [of n] by linarith
  from bitlen_bounds [OF n(1)]
  have lo: "2 ^ nat (bitlen n - 1) \<le> n" and hi: "n < 2 ^ nat (bitlen n)"
    by simp_all
  have e: "floor_log2 x = bitlen n - 1" using True by (simp add: floor_log2_def n_def)
  have "(2::rat) powi (bitlen n - 1) = of_int (2 ^ nat (bitlen n - 1))"
    using b by (simp add: power_int_nonneg_exp)
  also have "\<dots> \<le> of_int n" using lo by (simp only: of_int_le_iff)
  finally have 1: "(2::rat) powi (bitlen n - 1) \<le> x" using n(2) by linarith
  from hi have "n + 1 \<le> 2 ^ nat (bitlen n)" by simp
  then have "(of_int (n + 1) :: rat) \<le> of_int (2 ^ nat (bitlen n))"
    by (simp only: of_int_le_iff)
  also have "\<dots> = 2 powi (bitlen n)" using b by (simp add: power_int_nonneg_exp)
  finally have 2: "x < 2 powi (bitlen n)" using n(3) by simp
  from 1 2 e show ?thesis by simp
next
  case False
  define y where "y = 1 / x"
  define n where "n = \<lceil>y\<rceil> - 1"
  have y: "1 < y" using False assms by (simp add: y_def)
  have n: "0 < n" "of_int n < y" "y \<le> of_int n + 1"
    using y by (simp_all add: n_def) linarith+
  have b: "1 \<le> bitlen n"
    using n(1) bitlen_eq_zero_iff [of n] bitlen_nonneg [of n] by linarith
  from bitlen_bounds [OF n(1)]
  have lo: "2 ^ nat (bitlen n - 1) \<le> n" and hi: "n < 2 ^ nat (bitlen n)"
    by simp_all
  have e: "floor_log2 x = - bitlen n" using False by (simp add: floor_log2_def n_def y_def)
  have x: "x = 1 / y" using assms by (simp add: y_def)
  from hi have "n + 1 \<le> 2 ^ nat (bitlen n)" by simp
  then have "(of_int (n + 1) :: rat) \<le> of_int (2 ^ nat (bitlen n))"
    by (simp only: of_int_le_iff)
  also have "\<dots> = 2 powi (bitlen n)" using b by (simp add: power_int_nonneg_exp)
  finally have "y \<le> 2 powi (bitlen n)" using n(3) by simp
  then have 1: "(2::rat) powi (- bitlen n) \<le> x"
    using y by (simp add: x power_int_minus field_simps)
  have "(2::rat) powi (bitlen n - 1) = of_int (2 ^ nat (bitlen n - 1))"
    using b by (simp add: power_int_nonneg_exp)
  also have "\<dots> \<le> of_int n" using lo by (simp only: of_int_le_iff)
  finally have p: "(2::rat) powi (bitlen n - 1) < y" using n(2) by linarith
  have "1 / y < 1 / (2::rat) powi (bitlen n - 1)"
    using p y by (intro divide_strict_left_mono) (simp_all add: zero_less_mult_iff)
  then have "x < (2::rat) powi (- (bitlen n - 1))"
    by (simp only: x power_int_minus_divide)
  then have 2: "x < (2::rat) powi (- bitlen n + 1)" by (simp add: algebra_simps)
  from 1 2 e show ?thesis by simp
qed


lemma round64_pos: "0 < x \<Longrightarrow> round64 x = round_mag x"
  by (simp add: round64_def)

lemma round64_neg: "x < 0 \<Longrightarrow> round64 x = - round_mag (- x)"
  by (simp add: round64_def)

lemma round64_zero: "round64 0 = 0"
  by (simp add: round64_def)

lemma round64_minus: "round64 (- x) = - round64 x"
proof -
  consider "x = 0" | "0 < x" | "x < 0" by linarith
  then show ?thesis
  proof cases
    case 1
    then show ?thesis by (simp add: round64_zero)
  next
    case 2
    then show ?thesis by (simp add: round64_pos round64_neg)
  next
    case 3
    then show ?thesis by (simp add: round64_pos round64_neg)
  qed
qed

lemma ulp_split: "(2::rat) powi e = 2 ^ 52 * 2 powi (e - 52)"
  using power_int_add [of "2::rat" 52 "e - 52"] by simp

lemma ulp_split': "(2::rat) powi (e + 1) = 2 ^ 53 * 2 powi (e - 52)"
  using power_int_add [of "2::rat" 53 "e - 52"] by (simp add: add.commute)

lemma round_mag_bounds:
  assumes "0 < x"
  shows "2 powi (floor_log2 x) \<le> round_mag x \<and> round_mag x \<le> 2 powi (floor_log2 x + 1)"
proof -
  define u :: rat where "u = 2 powi (floor_log2 x - 52)"
  have u: "0 < u" by (simp add: u_def)
  from floor_log2_bounds [OF assms] have "2 ^ 52 * u \<le> x" "x < 2 ^ 53 * u"
    unfolding u_def using ulp_split [of "floor_log2 x"] ulp_split' [of "floor_log2 x"]
    by simp_all
  then have "of_int (2 ^ 52) \<le> x / u" "x / u \<le> of_int (2 ^ 53)"
    using u by (simp_all add: field_simps)
  then have "2 ^ 52 \<le> round_half_even (x / u)" "round_half_even (x / u) \<le> 2 ^ 53"
    by (simp_all only: round_half_even_ge round_half_even_le)
  then have "(of_int (2 ^ 52) :: rat) \<le> of_int (round_half_even (x / u))"
    "(of_int (round_half_even (x / u)) :: rat) \<le> of_int (2 ^ 53)"
    by (simp_all only: of_int_le_iff)
  then have "2 ^ 52 * u \<le> of_int (round_half_even (x / u)) * u"
    "of_int (round_half_even (x / u)) * u \<le> 2 ^ 53 * u"
    using u by simp_all
  then show ?thesis
    unfolding round_mag_def u_def [symmetric]
    using ulp_split [of "floor_log2 x"] ulp_split' [of "floor_log2 x"] by (simp add: u_def)
qed

lemma round_mag_pos: "0 < x \<Longrightarrow> 0 < round_mag x"
  using round_mag_bounds [of x] zero_less_power_int [of "2::rat" "floor_log2 x"] by linarith

lemma round_mag_mono:
  assumes "0 < x" "x \<le> y"
  shows "round_mag x \<le> round_mag y"
proof (cases "floor_log2 x = floor_log2 y")
  case True
  define u :: rat where "u = 2 powi (floor_log2 y - 52)"
  have u: "0 < u" by (simp add: u_def)
  have "x / u \<le> y / u" using assms(2) u by (simp add: divide_right_mono)
  then have "round_half_even (x / u) \<le> round_half_even (y / u)"
    by (rule round_half_even_mono)
  then have "(of_int (round_half_even (x / u)) :: rat) \<le> of_int (round_half_even (y / u))"
    by (simp only: of_int_le_iff)
  then have "of_int (round_half_even (x / u)) * u \<le> of_int (round_half_even (y / u)) * u"
    using u by simp
  then show ?thesis by (simp add: round_mag_def True u_def)
next
  case False
  have y: "0 < y" using assms by linarith
  from floor_log2_bounds [OF assms(1)] floor_log2_bounds [OF y] assms(2)
  have "(2::rat) powi (floor_log2 x) < 2 powi (floor_log2 y + 1)" by linarith
  then have "floor_log2 x < floor_log2 y + 1"
    using power_int_increasing [of "floor_log2 y + 1" "floor_log2 x" "2::rat"]
    by (cases "floor_log2 x < floor_log2 y + 1") simp_all
  with False have "floor_log2 x + 1 \<le> floor_log2 y" by linarith
  then have "(2::rat) powi (floor_log2 x + 1) \<le> 2 powi (floor_log2 y)"
    by (intro power_int_increasing) simp_all
  with round_mag_bounds [OF assms(1)] round_mag_bounds [OF y] show ?thesis by linarith
qed

lemma round64_nonneg: "0 \<le> x \<Longrightarrow> 0 \<le> round64 x"
proof (cases "x = 0")
  case True
  then show ?thesis by (simp add: round64_zero)
next
  case False
  assume "0 \<le> x"
  with False have "0 < x" by simp
  with round_mag_pos [of x] show ?thesis by (simp add: round64_pos)
qed

lemma round64_mono:
  assumes "x \<le> y"
  shows "round64 x \<le> round64 y"
proof -
  consider "0 < x" | "x \<le> 0" "0 \<le> y" | "y < 0" using assms by linarith
  then show ?thesis
  proof cases
    case 1
    with assms have "0 < y" by linarith
    with 1 assms show ?thesis by (simp add: round64_pos round_mag_mono)
  next
    case 2
    from 2(1) have "0 \<le> - x" by simp
    then have "0 \<le> round64 (- x)" by (rule round64_nonneg)
    then have "round64 x \<le> 0" by (simp add: round64_minus)
    moreover from 2(2) have "0 \<le> round64 y" by (rule round64_nonneg)
    ultimately show ?thesis by linarith
  next
    case 3
    with assms have "x < 0" "0 < - y" "- y \<le> - x" by linarith+
    with 3 round_mag_mono [of "- y" "- x"] show ?thesis by (simp add: round64_neg)
  qed
qed





lemma round64_60: "round64 60 = 60"
  by code_simp

text \<open>
  Known float64 values: 0.1 is 3602879701896397 / 2^55, and above 2^53 a tie goes to the
  even significand.
\<close>

lemma round64_tenth: "round64 (1 / 10) = 3602879701896397 / 2 ^ 55"
  by code_simp

lemma round64_ties: "round64 (2 ^ 53 + 1) = 2 ^ 53" "round64 (2 ^ 53 + 3) = 2 ^ 53 + 4"
  by code_simp+


lemma fsub_swap: "\<bar>fsub b a\<bar> = \<bar>fsub a b\<bar>"
proof -
  have "fsub b a = - fsub a b"
    using round64_minus [of "a - b"] by (simp add: fsub_def)
  then show ?thesis by simp
qed

lemma fmul_nonneg: "0 \<le> a \<Longrightarrow> 0 \<le> b \<Longrightarrow> 0 \<le> fmul a b"
  by (simp add: fmul_def round64_nonneg)

lemma fadd_60_ge: "0 \<le> y \<Longrightarrow> 60 \<le> fadd 60 y"
  using round64_mono [of 60 "60 + y"] by (simp add: fadd_def round64_60)



section \<open>Filter application\<close>

lemma sint_add_int64: "sint (a + b) = signed_take_bit 63 (sint a + sint b)" for a b :: int64
  by (simp add: sint_word_ariths)

lemma sint_add_exact:
  fixes a b :: int64
  assumes "- (2 ^ 63) \<le> sint a + sint b" "sint a + sint b < 2 ^ 63"
  shows "sint (a + b) = sint a + sint b"
  unfolding sint_add_int64 using assms by (rule signed_take_bit_int_eq_self)

lemma sint_add_overflow:
  fixes a b :: int64
  assumes "2 ^ 63 \<le> sint a + sint b"
  shows "sint (a + b) < 0"
proof -
  have "sint a < 2 ^ 63" "sint b < 2 ^ 63"
    using sint_lt [of a] sint_lt [of b] by simp_all
  moreover from assms
  have "signed_take_bit 63 (sint a + sint b) \<le> sint a + sint b - 2 ^ Suc 63"
    by (rule signed_take_bit_int_less_eq)
  ultimately have "signed_take_bit 63 (sint a + sint b) < 0"
    by (simp del: signed_take_bit_negative_iff)
  then show ?thesis by (simp only: sint_add_int64)
qed

lemma apply_filters_passes:
  "apply_filters df fs = filter (\<lambda>m. passes df fs m (sint (TotalGoals m))) (records df)"
  by (auto simp: apply_filters_def passes_def teams_active_def seasons_active_def
        dates_active_def Let_def intro!: filter_cong)

lemma passes_exact:
  assumes "goals_sum_fits m"
  shows "passes df fs m (sint (TotalGoals m)) = satisfies_spec df fs m"
proof -
  from assms have "sint (FullTimeHomeGoals m + FullTimeAwayGoals m)
      = sint (FullTimeHomeGoals m) + sint (FullTimeAwayGoals m)"
    by (intro sint_add_exact) (simp_all add: goals_sum_fits_def)
  then show ?thesis by (simp add: satisfies_spec_def TotalGoals_def)
qed

lemma passes_nonneg:
  assumes "goals_nonneg m" and "slider_range fs"
  shows "passes df fs m (sint (TotalGoals m)) = satisfies_spec df fs m"
proof (cases "sint (FullTimeHomeGoals m) + sint (FullTimeAwayGoals m) < 2 ^ 63")
  case True
  with assms(1) have "goals_sum_fits m"
    by (simp add: goals_nonneg_def goals_sum_fits_def)
  then show ?thesis by (rule passes_exact)
next
  case False
  then have big: "2 ^ 63 \<le> sint (FullTimeHomeGoals m) + sint (FullTimeAwayGoals m)" by simp
  from sint_add_overflow [OF big] have "sint (TotalGoals m) < 0" by (simp add: TotalGoals_def)
  with assms(2) big show ?thesis
    by (simp add: passes_def satisfies_spec_def slider_range_def)
qed

text \<open>
  Claim C1, as stated, fails: the total the code compares with the range is the sum of two
  int64 columns, which wraps around. With both goal counts at the least int64 the total is
  0, so the default range 0..10 keeps the row, while homeGoals + awayGoals, -2^64, is
  outside the range.
\<close>

theorem apply_filters_wraps_counterexample:
  "match7 \<in> set (apply_filters wrap_df fs_default_goals)
   \<and> \<not> satisfies_spec wrap_df fs_default_goals match7
   \<and> apply_filters wrap_df fs_default_goals
       \<noteq> filter (satisfies_spec wrap_df fs_default_goals) (records wrap_df)"
proof -
  have a: "apply_filters wrap_df fs_default_goals = [match6, match7]"
    by (simp add: apply_filters_def wrap_df_def fs_default_goals_def match6_def match7_def
          TotalGoals_def dt_date_def)
  have s: "\<not> satisfies_spec wrap_df fs_default_goals match7"
    by (simp add: satisfies_spec_def passes_def wrap_df_def fs_default_goals_def match7_def)
  have r: "records wrap_df = [match6, match7]"
    by (simp add: wrap_df_def)
  from a s r show ?thesis by auto
qed

text \<open>
  Claim C1, amended: for every filter specification and every record set, the filtered
  output is exactly the records that satisfy every active predicate (a selected team playing
  at home or away, the season selected, the date within the range, the total goals within
  the range), an empty or absent dimension constraining nothing, where the total is the
  64-bit sum of the two goal columns. That total is homeGoals + awayGoals whenever the sum
  lies in the int64 range; and for goal counts that are not negative and a range the slider
  can return, the output is exactly the records satisfying the predicates with
  homeGoals + awayGoals, overflow or not. The output is the input list filtered, so order
  and multiplicity are kept.
\<close>

theorem apply_filters_exact:
  "apply_filters df fs = filter (\<lambda>m. passes df fs m (sint (TotalGoals m))) (records df)
   \<and> ((\<forall>m \<in> set (records df). goals_sum_fits m) \<longrightarrow>
        apply_filters df fs = filter (satisfies_spec df fs) (records df))
   \<and> ((\<forall>m \<in> set (records df). goals_nonneg m) \<and> slider_range fs \<longrightarrow>
        apply_filters df fs = filter (satisfies_spec df fs) (records df))"
proof -
  have 1: "apply_filters df fs = filter (satisfies_spec df fs) (records df)"
    if "\<forall>m \<in> set (records df). goals_sum_fits m"
    unfolding apply_filters_passes using that by (intro filter_cong) (simp_all add: passes_exact)
  have 2: "apply_filters df fs = filter (satisfies_spec df fs) (records df)"
    if "\<forall>m \<in> set (records df). goals_nonneg m" "slider_range fs"
    unfolding apply_filters_passes using that by (intro filter_cong) (simp_all add: passes_nonneg)
  from 1 2 apply_filters_passes [of df fs] show ?thesis by blast
qed

theorem apply_filters_exact_witness:
  "filter (\<lambda>m. \<not> goals_nonneg m) (records example_df) = []
   \<and> slider_range fs_all_active
   \<and> satisfies_spec example_df fs_all_active match1
   \<and> \<not> satisfies_spec example_df fs_all_active match2
   \<and> apply_filters example_df fs_all_active = [match1]
   \<and> apply_filters example_df fs_goals_only = [match1]"
proof -
  have n: "filter (\<lambda>m. \<not> goals_nonneg m) (records example_df) = []"
    by (simp add: example_df_def goals_nonneg_def match1_def match2_def)
  have h: "\<forall>m \<in> set (records example_df). goals_nonneg m"
    by (simp add: example_df_def goals_nonneg_def match1_def match2_def)
  have r: "slider_range fs_all_active" "slider_range fs_goals_only"
    by (simp_all add: slider_range_def fs_all_active_def fs_goals_only_def)
  have s: "satisfies_spec example_df fs_all_active match1"
    "\<not> satisfies_spec example_df fs_all_active match2"
    "satisfies_spec example_df fs_goals_only match1"
    "\<not> satisfies_spec example_df fs_goals_only match2"
    by (simp_all add: satisfies_spec_def passes_def teams_active_def seasons_active_def
         dates_active_def example_df_def fs_all_active_def fs_goals_only_def match1_def
         match2_def dt_date_def)
  have e: "records example_df = [match1, match2]"
    by (simp add: example_df_def)
  from h r(1) apply_filters_exact [of example_df fs_all_active]
  have "apply_filters example_df fs_all_active
        = filter (satisfies_spec example_df fs_all_active) (records example_df)" by blast
  then have a: "apply_filters example_df fs_all_active = [match1]"
    using s by (simp add: e)
  from h r(2) apply_filters_exact [of example_df fs_goals_only]
  have "apply_filters example_df fs_goals_only
        = filter (satisfies_spec example_df fs_goals_only) (records example_df)" by blast
  then have b: "apply_filters example_df fs_goals_only = [match1]"
    using s by (simp add: e)
  from n r(1) s(1) s(2) a b show ?thesis by (intro conjI)
qed

section \<open>League table rows\<close>

lemma team_row_invariant:
  "team_row filtered_df team = Some row \<Longrightarrow>
     Wins row + Draws row + Losses row = Played row \<and> Points row = Wins row * 3 + Draws row"
  by (auto simp: team_row_def Let_def split: if_splits)

lemma team_row_Team: "team_row filtered_df team = Some row \<Longrightarrow> Team row = team"
  by (auto simp: team_row_def Let_def split: if_splits)

lemma played_zero: "int (length xs) + int (length ys) = 0 \<longleftrightarrow> xs = [] \<and> ys = []"
proof -
  have "int (length xs) + int (length ys) = 0 \<longleftrightarrow> length xs + length ys = 0"
    by linarith
  then show ?thesis by simp
qed

lemma team_row_None:
  "team_row filtered_df team = None
   \<longleftrightarrow> (\<forall>m \<in> set filtered_df. HomeTeam m \<noteq> team \<and> AwayTeam m \<noteq> team)"
proof -
  have "team_row filtered_df team = None \<longleftrightarrow>
          filter (\<lambda>m. HomeTeam m = team) filtered_df = []
          \<and> filter (\<lambda>m. AwayTeam m = team) filtered_df = []"
    by (simp add: team_row_def Let_def played_zero)
  then show ?thesis by (auto simp: filter_empty_conv)
qed

lemma league_table_rows:
  "row \<in> set (league_table filtered_df teams)
   \<Longrightarrow> \<exists>team \<in> set teams. team_row filtered_df team = Some row"
  by (induction teams) (auto split: option.splits)

lemma league_table_teams:
  "map Team (league_table filtered_df teams) =
     filter (\<lambda>t. \<exists>m \<in> set filtered_df. HomeTeam m = t \<or> AwayTeam m = t) teams"
proof (induction teams)
  case Nil
  then show ?case by simp
next
  case (Cons t ts)
  show ?case
  proof (cases "team_row filtered_df t")
    case None
    then show ?thesis using Cons team_row_None [of filtered_df t] by auto
  next
    case (Some row)
    then show ?thesis
      using Cons team_row_None [of filtered_df t] team_row_Team [OF Some] by auto
  qed
qed

lemma league_table_Nil: "league_table [] teams = []"
  by (induction teams) (simp_all add: team_row_def)

section \<open>Ranking and positions\<close>

lemma length_assign_positions: "length (assign_positions tbl) = length tbl"
  by (simp add: assign_positions_def)

lemma nth_assign_positions:
  "i < length tbl \<Longrightarrow> assign_positions tbl ! i = (tbl ! i)\<lparr>Position := int i + 1\<rparr>"
  by (simp add: assign_positions_def)

lemma map_Position_assign: "map Position (assign_positions tbl) = [1..int (length tbl)]"
  by (rule nth_equalityI) (simp_all add: length_assign_positions nth_assign_positions)

lemma set_assign_positions:
  "row \<in> set (assign_positions tbl) \<Longrightarrow> \<exists>r \<in> set tbl. \<exists>p. row = r\<lparr>Position := p\<rparr>"
  by (auto simp: assign_positions_def dest: set_zip_rightD)

lemma strip_assign_positions:
  "map (\<lambda>r. r\<lparr>Position := 0\<rparr>) (assign_positions tbl) = map (\<lambda>r. r\<lparr>Position := 0\<rparr>) tbl"
  by (rule nth_equalityI) (simp_all add: length_assign_positions nth_assign_positions)

lemma set_sort_values: "set (sort_values tbl) = set tbl"
  by (simp add: sort_values_def)

lemma mset_sort_values: "mset (sort_values tbl) = mset tbl"
  by (simp add: sort_values_def)

lemma sorted_sort_values: "sorted_wrt ranked_before (sort_values tbl)"
proof -
  have "sorted (map (\<lambda>r. (- Points r, - GD r)) (sort_values tbl))"
    unfolding sort_values_def by (rule sorted_sort_key)
  then show ?thesis
    by (auto simp: sorted_map ranked_before_def elim!: sorted_wrt_mono_rel [rotated])
qed

lemma sort_values_stable:
  "filter (\<lambda>r. Points r = p \<and> GD r = g) (sort_values tbl)
   = filter (\<lambda>r. Points r = p \<and> GD r = g) tbl"
proof -
  have "filter (\<lambda>r. (- Points r, - GD r) = (- p, - g)) (sort_values tbl)
          = filter (\<lambda>r. (- Points r, - GD r) = (- p, - g)) tbl"
    unfolding sort_values_def by (rule sort_key_stable)
  then show ?thesis by simp
qed

lemma sort_values_idem: "sort_values (sort_values tbl) = sort_values tbl"
  unfolding sort_values_def by (rule sort_key_id_if_sorted) (rule sorted_sort_key)

lemma league_df_Inr:
  "league_df tbl = Inr rows \<longleftrightarrow> tbl \<noteq> [] \<and> rows = assign_positions (sort_values tbl)"
  by (auto simp: league_df_def)

lemma league_df_rows:
  assumes "league_df tbl = Inr rows" and "row \<in> set rows"
  shows "\<exists>r \<in> set tbl. \<exists>p. row = r\<lparr>Position := p\<rparr>"
  using assms set_assign_positions [of row "sort_values tbl"]
  by (simp add: league_df_Inr set_sort_values)

text \<open>
  Claim C2: every row the table aggregator produces, from any filtered record set and any
  list of teams, has wins + draws + losses equal to the matches played and points equal to
  wins * 3 + draws. This holds for the rows the loop appends and for the rows of the ranked
  table.
\<close>

theorem standing_invariant:
  assumes "row \<in> set (league_table filtered_df teams)
           \<or> (league_df (league_table filtered_df teams) = Inr tbl \<and> row \<in> set tbl)"
  shows "Wins row + Draws row + Losses row = Played row \<and> Points row = Wins row * 3 + Draws row"
proof -
  obtain r p where r: "r \<in> set (league_table filtered_df teams)"
    and row: "row = r\<lparr>Position := p\<rparr>"
  proof (cases "row \<in> set (league_table filtered_df teams)")
    case True
    then show ?thesis using that [of row "Position row"] by simp
  next
    case False
    with assms league_df_rows [of "league_table filtered_df teams" tbl row] that
    show ?thesis by blast
  qed
  from league_table_rows [OF r] obtain team where "team_row filtered_df team = Some r"
    by blast
  from team_row_invariant [OF this] show ?thesis by (simp add: row)
qed

theorem standing_invariant_witness:
  "standing_A \<in> set (league_table [match1, match2] [''A'', ''B''])
   \<and> Wins standing_A + Draws standing_A + Losses standing_A = Played standing_A
   \<and> Points standing_A = Wins standing_A * 3 + Draws standing_A"
proof -
  have h: "standing_A \<in> set (league_table [match1, match2] [''A'', ''B''])"
    by (simp add: standing_A_def team_row_def match1_def match2_def)
  from h standing_invariant [of standing_A "[match1, match2]" "[''A'', ''B'']"]
  show ?thesis by blast
qed

text \<open>
  Claim C3: the league table is ordered by points, descending, then by goal difference,
  descending; rows level on both keys keep the order the loop produced them in, whatever
  their goals-for; the sorted rows are a rearrangement of the input rows; and sorting a
  sorted table again changes nothing. The ranked table is the sorted one with positions
  written in.
\<close>

theorem ranking_stable_sort:
  "sorted_wrt ranked_before (sort_values tbl)
   \<and> mset (sort_values tbl) = mset tbl
   \<and> (\<forall>p g. filter (\<lambda>r. Points r = p \<and> GD r = g) (sort_values tbl)
             = filter (\<lambda>r. Points r = p \<and> GD r = g) tbl)
   \<and> sort_values (sort_values tbl) = sort_values tbl
   \<and> (\<forall>rows. league_df tbl = Inr rows \<longrightarrow>
         map (\<lambda>r. r\<lparr>Position := 0\<rparr>) rows = map (\<lambda>r. r\<lparr>Position := 0\<rparr>) (sort_values tbl))"
  by (simp add: sorted_sort_values mset_sort_values sort_values_stable sort_values_idem
        league_df_Inr strip_assign_positions)

theorem ranking_stable_sort_witness:
  "sort_values tie_table = [standing_Y, standing_X, standing_Z]
   \<and> league_df tie_table = Inr [standing_Y\<lparr>Position := 1\<rparr>, standing_X\<lparr>Position := 2\<rparr>,
                                standing_Z\<lparr>Position := 3\<rparr>]
   \<and> sorted_wrt ranked_before (sort_values tie_table)
   \<and> filter (\<lambda>r. Points r = 3 \<and> GD r = 0) (sort_values tie_table) = [standing_X, standing_Z]
   \<and> GF standing_X < GF standing_Z"
proof -
  have s: "sort_values tie_table = [standing_Y, standing_X, standing_Z]"
    by (simp add: tie_table_def sort_values_def standing_X_def standing_Y_def standing_Z_def)
  have d: "league_df tie_table = Inr [standing_Y\<lparr>Position := 1\<rparr>, standing_X\<lparr>Position := 2\<rparr>,
                                      standing_Z\<lparr>Position := 3\<rparr>]"
    by (simp add: league_df_def s assign_positions_def) (simp add: tie_table_def upto.simps)
  from ranking_stable_sort [of tie_table]
  have o: "sorted_wrt ranked_before (sort_values tie_table)"
    and f: "filter (\<lambda>r. Points r = 3 \<and> GD r = 0) (sort_values tie_table)
            = filter (\<lambda>r. Points r = 3 \<and> GD r = 0) tie_table"
    by simp_all
  have t: "filter (\<lambda>r. Points r = 3 \<and> GD r = 0) tie_table = [standing_X, standing_Z]"
    by (simp add: tie_table_def standing_X_def standing_Y_def standing_Z_def)
  have g: "GF standing_X < GF standing_Z"
    by (simp add: standing_X_def standing_Z_def)
  from s d o f t g show ?thesis by simp
qed

text \<open>
  Claim C8: a team without any match in the filtered record set, at home or away, has no
  row in the league table, neither among the rows the loop appends nor in the ranked table.
\<close>

theorem team_without_matches_excluded:
  assumes "\<forall>m \<in> set filtered_df. HomeTeam m \<noteq> team \<and> AwayTeam m \<noteq> team"
  shows "team \<notin> Team ` set (league_table filtered_df teams)
         \<and> (\<forall>tbl. league_df (league_table filtered_df teams) = Inr tbl
                  \<longrightarrow> team \<notin> Team ` set tbl)"
proof -
  have a: "team \<notin> set (map Team (league_table filtered_df teams))"
    unfolding league_table_teams using assms by auto
  have b: "team \<notin> Team ` set tbl"
    if "league_df (league_table filtered_df teams) = Inr tbl" for tbl
  proof
    assume "team \<in> Team ` set tbl"
    then obtain row where "row \<in> set tbl" "Team row = team" by auto
    with league_df_rows [OF that] obtain r p
      where "r \<in> set (league_table filtered_df teams)" "row = r\<lparr>Position := p\<rparr>" by blast
    with \<open>Team row = team\<close> a show False by auto
  qed
  from a b show ?thesis by auto
qed

theorem team_without_matches_excluded_witness:
  "filter (\<lambda>m. HomeTeam m = ''C'' \<or> AwayTeam m = ''C'') [match1, match2] = []
   \<and> ''C'' \<notin> Team ` set (league_table [match1, match2] [''A'', ''B'', ''C''])
   \<and> map Team (league_table [match1, match2] [''A'', ''B'', ''C'']) = [''A'', ''B'']"
proof -
  have f: "filter (\<lambda>m. HomeTeam m = ''C'' \<or> AwayTeam m = ''C'') [match1, match2] = []"
    by (simp add: match1_def match2_def)
  have h: "\<forall>m \<in> set [match1, match2]. HomeTeam m \<noteq> ''C'' \<and> AwayTeam m \<noteq> ''C''"
    by (simp add: match1_def match2_def)
  have t: "map Team (league_table [match1, match2] [''A'', ''B'', ''C'']) = [''A'', ''B'']"
    by (simp add: team_row_def match1_def match2_def)
  from team_without_matches_excluded [OF h, of "[''A'', ''B'', ''C'']"]
  have c: "''C'' \<notin> Team ` set (league_table [match1, match2] [''A'', ''B'', ''C''])"
    by (rule conjunct1)
  from f c t show ?thesis by (intro conjI)
qed

text \<open>
  Claim C10: whenever the table has rows, ranking succeeds, and the positions written into
  the ranked table are 1, 2, ..., n in row order, n being the number of rows: the row at
  index i gets position i + 1, no position is repeated, none is missing and none lies
  outside 1..n. (A table without rows raises before any position is assigned.)
\<close>

theorem positions_consecutive:
  "(tbl \<noteq> [] \<longrightarrow> (\<exists>rows. league_df tbl = Inr rows))
   \<and> (\<forall>rows. league_df tbl = Inr rows \<longrightarrow>
         length rows = length tbl
         \<and> map Position rows = [1..int (length rows)]
         \<and> (\<forall>i < length rows. Position (rows ! i) = int i + 1)
         \<and> distinct (map Position rows)
         \<and> set (map Position rows) = {1..int (length rows)})"
proof -
  have len: "length (sort_values tbl) = length tbl"
    by (simp add: sort_values_def)
  have "map Position rows = [1..int (length rows)] \<and> length rows = length tbl
        \<and> (\<forall>i < length rows. Position (rows ! i) = int i + 1)"
    if "league_df tbl = Inr rows" for rows
    using that len
    by (simp add: league_df_Inr map_Position_assign length_assign_positions nth_assign_positions)
  moreover have "distinct [1..int n] \<and> set [1..int n] = {1..int n}" for n
    by simp
  ultimately show ?thesis
    by (auto simp: league_df_def)
qed

theorem positions_consecutive_witness:
  "tie_table \<noteq> [] \<and> (\<exists>rows. league_df tie_table = Inr rows \<and> map Position rows = [1, 2, 3])"
proof -
  have n: "tie_table \<noteq> []" and l: "length tie_table = 3"
    by (simp_all add: tie_table_def)
  from positions_consecutive [of tie_table] n obtain rows
    where r: "league_df tie_table = Inr rows" by blast
  with positions_consecutive [of tie_table] have "length rows = length tie_table"
    and "map Position rows = [1..int (length rows)]" by blast+
  with l have "map Position rows = [1, 2, 3]" by (simp add: upto.simps)
  with n r show ?thesis by simp
qed

section \<open>Outcome predictor\<close>



lemma decide_confidence:
  "snd (decide hs as)
   = (if hs > fadd as (1/2) \<or> as > fadd hs (1/2)
      then min 95 (fadd 60 (fmul 10 \<bar>fsub hs as\<bar>)) else 50)"
  by (simp add: decide_def fsub_swap [of hs as] fmul_def mult.commute)

lemma decide_bounds: "50 \<le> snd (decide hs as) \<and> snd (decide hs as) \<le> 95"
proof -
  have "60 \<le> fadd 60 (fmul 10 \<bar>fsub hs as\<bar>)"
    by (intro fadd_60_ge fmul_nonneg) simp_all
  then show ?thesis by (simp add: decide_confidence)
qed


lemma predict_match_Metrics:
  assumes "filter (\<lambda>m. HomeTeam m = home_team) filtered_df \<noteq> []"
    and "filter (\<lambda>m. AwayTeam m = away_team) filtered_df \<noteq> []"
  shows "predict_match fsum filtered_df home_team away_team =
     (let hs = home_strength_of fsum filtered_df home_team;
          as = away_strength_of fsum filtered_df away_team
      in Metrics \<lparr>prediction = fst (decide hs as), confidence = snd (decide hs as),
           predicted_goals =
             max 0 (fdiv (fadd (mean fsum (map FullTimeHomeGoals
                                   (filter (\<lambda>m. HomeTeam m = home_team) filtered_df)))
                               (mean fsum (map FullTimeAwayGoals
                                   (filter (\<lambda>m. AwayTeam m = away_team) filtered_df)))) 2)\<rparr>)"
  using assms
  by (simp add: predict_match_def home_strength_of_def away_strength_of_def Let_def
        split: prod.splits)

lemma predict_match_Warning:
  assumes "filter (\<lambda>m. HomeTeam m = home_team) filtered_df = []
           \<or> filter (\<lambda>m. AwayTeam m = away_team) filtered_df = []"
  shows "predict_match fsum filtered_df home_team away_team
         = Warning ''Not enough data for these teams in the selected filters.''"
  using assms by (auto simp: predict_match_def Let_def)

lemma predict_example:
  "predict_match seq_sum [pm1, pm2, pm3] ''Arsenal'' ''Wolves'' = Metrics example_prediction"
  by code_simp



text \<open>
  Claim C5: the predictor gives the warning "Not enough data ..." and no numbers exactly
  when the home team has no home fixture or the away team has no away fixture in the
  filtered record set; it reports numbers exactly when both have at least one. In
  particular a selected team without any match in the filtered set gives the warning.
\<close>

theorem predictor_insufficient_data:
  "(predict_match fsum filtered_df home_team away_team
      = Warning ''Not enough data for these teams in the selected filters.''
    \<longleftrightarrow> (\<forall>m \<in> set filtered_df. HomeTeam m \<noteq> home_team)
        \<or> (\<forall>m \<in> set filtered_df. AwayTeam m \<noteq> away_team))
   \<and> ((\<exists>p. predict_match fsum filtered_df home_team away_team = Metrics p)
    \<longleftrightarrow> (\<exists>m \<in> set filtered_df. HomeTeam m = home_team)
        \<and> (\<exists>m \<in> set filtered_df. AwayTeam m = away_team))
   \<and> ((\<forall>m \<in> set filtered_df. HomeTeam m \<noteq> home_team \<and> AwayTeam m \<noteq> home_team)
        \<or> (\<forall>m \<in> set filtered_df. HomeTeam m \<noteq> away_team \<and> AwayTeam m \<noteq> away_team)
      \<longrightarrow> predict_match fsum filtered_df home_team away_team
            = Warning ''Not enough data for these teams in the selected filters.'')"
proof (cases "filter (\<lambda>m. HomeTeam m = home_team) filtered_df = []
              \<or> filter (\<lambda>m. AwayTeam m = away_team) filtered_df = []")
  case True
  from predict_match_Warning [OF True] True show ?thesis
    by (auto simp: filter_empty_conv)
next
  case False
  then have ne: "filter (\<lambda>m. HomeTeam m = home_team) filtered_df \<noteq> []"
    "filter (\<lambda>m. AwayTeam m = away_team) filtered_df \<noteq> []" by simp_all
  from predict_match_Metrics [OF ne] obtain p
    where "predict_match fsum filtered_df home_team away_team = Metrics p" by (simp add: Let_def)
  with False show ?thesis
    by (auto simp: filter_empty_conv)
qed

theorem predictor_insufficient_data_witness:
  "filter (\<lambda>m. HomeTeam m = ''C'' \<or> AwayTeam m = ''C'') [match1, match2] = []
   \<and> predict_match seq_sum [match1, match2] ''A'' ''C''
       = Warning ''Not enough data for these teams in the selected filters.''
   \<and> filter (\<lambda>m. HomeTeam m = ''A'') [match1, match2] = [match1]
   \<and> filter (\<lambda>m. AwayTeam m = ''B'') [match1, match2] = [match1]
   \<and> (\<exists>p. predict_match seq_sum [match1, match2] ''A'' ''B'' = Metrics p)"
proof -
  have f: "filter (\<lambda>m. HomeTeam m = ''C'' \<or> AwayTeam m = ''C'') [match1, match2] = []"
    by (simp add: match1_def match2_def)
  have c: "\<forall>m \<in> set [match1, match2]. HomeTeam m \<noteq> ''C'' \<and> AwayTeam m \<noteq> ''C''"
    by (simp add: match1_def match2_def)
  have fa: "filter (\<lambda>m. HomeTeam m = ''A'') [match1, match2] = [match1]"
    and fb: "filter (\<lambda>m. AwayTeam m = ''B'') [match1, match2] = [match1]"
    by (simp_all add: match1_def match2_def)
  have a: "\<exists>m \<in> set [match1, match2]. HomeTeam m = ''A''"
    and b: "\<exists>m \<in> set [match1, match2]. AwayTeam m = ''B''"
    by (simp_all add: match1_def match2_def)
  from c predictor_insufficient_data [of seq_sum "[match1, match2]" "''A''" "''C''"]
  have w: "predict_match seq_sum [match1, match2] ''A'' ''C''
       = Warning ''Not enough data for these teams in the selected filters.''" by blast
  from a b predictor_insufficient_data [of seq_sum "[match1, match2]" "''A''" "''B''"]
  have m: "\<exists>p. predict_match seq_sum [match1, match2] ''A'' ''B'' = Metrics p" by blast
  from f w fa fb m show ?thesis by (intro conjI)
qed

text \<open>
  Claim C6: whenever the predictor reports numbers, the confidence lies between 50 and 95
  and the expected combined goals, max(0, mean of the two scoring averages), is not
  negative.
\<close>

theorem predictor_bounds:
  assumes "predict_match fsum filtered_df home_team away_team = Metrics p"
  shows "50 \<le> confidence p \<and> confidence p \<le> 95 \<and> 0 \<le> predicted_goals p"
proof -
  have "filter (\<lambda>m. HomeTeam m = home_team) filtered_df \<noteq> []"
    and "filter (\<lambda>m. AwayTeam m = away_team) filtered_df \<noteq> []"
    using assms predict_match_Warning [of home_team filtered_df away_team fsum] by auto
  from predict_match_Metrics [OF this] assms decide_bounds show ?thesis
    by (auto simp: Let_def)
qed

theorem predictor_bounds_witness:
  "predict_match seq_sum [pm1, pm2, pm3] ''Arsenal'' ''Wolves'' = Metrics example_prediction
   \<and> 50 \<le> confidence example_prediction \<and> confidence example_prediction \<le> 95
   \<and> 0 \<le> predicted_goals example_prediction"
  using predict_example predictor_bounds [OF predict_example] by simp

section \<open>An empty filtered view\<close>

text \<open>
  Claim C7 says that an empty filtered record set is handled without division by zero or
  any other crash. On the two-season file with the selection Leicester, 2020/21 the
  filtered view is empty; the overview then divides the home wins by zero matches
  (line 146, \<open>ZeroDivisionError\<close>), and the league table, had the script got there, sorts
  a frame without columns (line 208, \<open>KeyError\<close>).
\<close>

theorem empty_view_crashes:
  "apply_filters two_season_df fs_no_match = []
   \<and> overview fsum (apply_filters two_season_df fs_no_match) = Inl ZeroDivisionError
   \<and> league_df (league_table (apply_filters two_season_df fs_no_match)
                  (teams_to_show fs_no_match [''Leicester'', ''Man United'', ''Southampton'']))
       = Inl (KeyError ''Points'')"
proof -
  have e: "apply_filters two_season_df fs_no_match = []"
    by (simp add: apply_filters_def two_season_df_def fs_no_match_def match4_def match5_def
          TotalGoals_def)
  have o: "overview fsum [] = Inl ZeroDivisionError"
    by (simp add: overview_def py_truediv_def)
  have l: "league_df (league_table []
             (teams_to_show fs_no_match [''Leicester'', ''Man United'', ''Southampton'']))
           = Inl (KeyError ''Points'')"
    by (simp add: league_table_Nil league_df_def)
  from e o l show ?thesis by simp
qed

section \<open>Per-row points\<close>

lemma get_team_result_range: "get_team_result row team \<in> {0, 1, 3}"
  by (simp add: get_team_result_def)

lemma set_team_all:
  "row \<in> set (team_all filtered_df team)
   \<longleftrightarrow> row \<in> set filtered_df \<and> (HomeTeam row = team \<or> AwayTeam row = team)"
  by (auto simp: team_all_def)

text \<open>
  Claim C9, as stated, fails on a row the dashboard does pass to \<open>get_team_result\<close>: the
  function tests the home side first, so on a row that lists the named team at home and
  away with result \<open>A\<close> it returns 0, where the stated scoring (away team with result
  \<open>A\<close>) gives 3.
\<close>

theorem get_team_result_self_match_counterexample:
  "match8 \<in> set (team_all [match8] ''A'')
   \<and> team_won match8 ''A''
   \<and> spec_team_result match8 ''A'' = 3
   \<and> get_team_result match8 ''A'' = 0"
  by (simp add: team_all_def get_team_result_def spec_team_result_def team_won_def match8_def)

text \<open>
  Claim C9, amended: \<open>get_team_result\<close> is a function of the record and the team name
  whose value is always 0, 1 or 3. On every row the dashboard applies it to (a row of the
  filtered set in which the named team is the home or the away team), other than a row that
  lists the same team at home and away with result \<open>A\<close>, it is 3 when the named team won
  (home team with result \<open>H\<close>, away team with result \<open>A\<close>), 1 on a draw and 0 otherwise.
\<close>

theorem get_team_result_on_team_rows:
  "get_team_result row team \<in> {0, 1, 3}
   \<and> (row \<in> set (team_all filtered_df team)
        \<and> \<not> (HomeTeam row = AwayTeam row \<and> FullTimeResult row = ''A'') \<longrightarrow>
      get_team_result row team = spec_team_result row team)"
proof -
  have "get_team_result row team = spec_team_result row team"
    if "HomeTeam row = team \<or> AwayTeam row = team"
      and "\<not> (HomeTeam row = AwayTeam row \<and> FullTimeResult row = ''A'')"
    using that by (auto simp: get_team_result_def spec_team_result_def team_won_def)
  with get_team_result_range [of row team] show ?thesis by (simp add: set_team_all)
qed

theorem get_team_result_on_team_rows_witness:
  "team_all [match1, match2, match3] ''A'' = [match1, match3, match2]
   \<and> map (\<lambda>row. get_team_result row ''A'') [match1, match3, match2] = [3, 0, 1]
   \<and> map (\<lambda>row. spec_team_result row ''A'') [match1, match3, match2] = [3, 0, 1]
   \<and> get_team_result match3 ''B'' = 3"
proof -
  have t: "team_all [match1, match2, match3] ''A'' = [match1, match3, match2]"
    by (simp add: team_all_def match1_def match2_def match3_def)
  have tb: "match3 \<in> set (team_all [match3] ''B'')"
    by (simp add: team_all_def match3_def)
  have s: "map (\<lambda>row. spec_team_result row ''A'') [match1, match3, match2] = [3, 0, 1]"
    "spec_team_result match3 ''B'' = 3"
    by (simp_all add: spec_team_result_def team_won_def match1_def match2_def match3_def)
  have d: "HomeTeam match1 \<noteq> AwayTeam match1" "HomeTeam match2 \<noteq> AwayTeam match2"
    "HomeTeam match3 \<noteq> AwayTeam match3"
    by (simp_all add: match1_def match2_def match3_def)
  have m: "match1 \<in> set (team_all [match1, match2, match3] ''A'')"
    "match2 \<in> set (team_all [match1, match2, match3] ''A'')"
    "match3 \<in> set (team_all [match1, match2, match3] ''A'')"
    by (simp_all add: t)
  from m(1) d(1) get_team_result_on_team_rows [of match1 "''A''" "[match1, match2, match3]"]
  have 1: "get_team_result match1 ''A'' = spec_team_result match1 ''A''" by blast
  from m(2) d(2) get_team_result_on_team_rows [of match2 "''A''" "[match1, match2, match3]"]
  have 2: "get_team_result match2 ''A'' = spec_team_result match2 ''A''" by blast
  from m(3) d(3) get_team_result_on_team_rows [of match3 "''A''" "[match1, match2, match3]"]
  have 3: "get_team_result match3 ''A'' = spec_team_result match3 ''A''" by blast
  from tb d(3) get_team_result_on_team_rows [of match3 "''B''" "[match3]"]
  have 4: "get_team_result match3 ''B'' = spec_team_result match3 ''B''" by blast
  have g: "map (\<lambda>row. get_team_result row ''A'') [match1, match3, match2] = [3, 0, 1]"
    using s(1) by (simp add: 1 2 3)
  have b: "get_team_result match3 ''B'' = 3"
    using s(2) by (simp add: 4)
  from t g s(1) b show ?thesis by (intro conjI)
qed

end
